theory Spec2Isabelle
  imports Complex_Main
begin

section \<open>JavaScript numbers\<close>

text \<open>
  The two engines of the ATSEP Toolbox, \<^verbatim>\<open>Vicenty.js\<close> and \<^verbatim>\<open>QNH.js\<close>, compute on
  JavaScript numbers: IEEE-754 doubles with \<^verbatim>\<open>NaN\<close>, \<^verbatim>\<open>+Infinity\<close> and \<^verbatim>\<open>-Infinity\<close>.
  A number is modelled as one of these three special values or a finite real. The
  special values follow IEEE-754 (a \<^verbatim>\<open>NaN\<close> operand gives \<^verbatim>\<open>NaN\<close>, every comparison with
  \<^verbatim>\<open>NaN\<close> is false, \<^verbatim>\<open>Infinity - Infinity\<close>, \<^verbatim>\<open>0 * Infinity\<close> and \<^verbatim>\<open>0 / 0\<close> are \<^verbatim>\<open>NaN\<close>).
  Two things are idealised and no theorem below may be read past them: the result
  of an operation on finite operands is the exact real (neither round-off nor overflow),
  and zero carries no sign (a non-zero number divided by zero takes the sign of the
  dividend). The constant \<^verbatim>\<open>Math.PI\<close> is not idealised: it is the double nearest to \<open>\<pi>\<close>,
  a rational number a little below \<open>\<pi>\<close>.
\<close>

datatype jsnum = NaN | PInf | NInf | Fin real

fun isNaN :: "jsnum \<Rightarrow> bool" where
  "isNaN NaN = True"
| "isNaN _ = False"

fun negative :: "jsnum \<Rightarrow> bool" where
  "negative NInf = True"
| "negative (Fin a) = (a < 0)"
| "negative _ = False"

definition infinity :: "bool \<Rightarrow> jsnum" where
  "infinity neg = (if neg then NInf else PInf)"

instantiation jsnum :: "{zero, one, plus, uminus, minus, times, inverse, ord}"
begin

definition zero_jsnum :: jsnum where
  "0 = Fin 0"

definition one_jsnum :: jsnum where
  "1 = Fin 1"

fun plus_jsnum :: "jsnum \<Rightarrow> jsnum \<Rightarrow> jsnum" where
  "NaN + _ = NaN"
| "_ + NaN = NaN"
| "Fin a + Fin b = Fin (a + b)"
| "PInf + NInf = NaN"
| "NInf + PInf = NaN"
| "PInf + _ = PInf"
| "NInf + _ = NInf"
| "Fin a + y = y"

fun uminus_jsnum :: "jsnum \<Rightarrow> jsnum" where
  "- NaN = NaN"
| "- PInf = NInf"
| "- NInf = PInf"
| "- Fin a = Fin (- a)"

definition minus_jsnum :: "jsnum \<Rightarrow> jsnum \<Rightarrow> jsnum" where
  "x - y = x + (- y)" for x y :: jsnum

fun times_jsnum :: "jsnum \<Rightarrow> jsnum \<Rightarrow> jsnum" where
  "NaN * _ = NaN"
| "_ * NaN = NaN"
| "Fin a * Fin b = Fin (a * b)"
| "x * y = (if x = Fin 0 \<or> y = Fin 0 then NaN else infinity (negative x \<noteq> negative y))"

fun divide_jsnum :: "jsnum \<Rightarrow> jsnum \<Rightarrow> jsnum" where
  "divide_jsnum NaN _ = NaN"
| "divide_jsnum _ NaN = NaN"
| "divide_jsnum (Fin a) (Fin b) =
     (if b \<noteq> 0 then Fin (a / b) else if a = 0 then NaN else infinity (a < 0))"
| "divide_jsnum (Fin a) _ = Fin 0"
| "divide_jsnum x (Fin b) = infinity (negative x \<noteq> (b < 0))"
| "divide_jsnum _ _ = NaN"

definition inverse_jsnum :: "jsnum \<Rightarrow> jsnum" where
  "inverse x = divide (Fin 1) x" for x :: jsnum

fun less_jsnum :: "jsnum \<Rightarrow> jsnum \<Rightarrow> bool" where
  "Fin a < Fin b = (a < b)"
| "Fin a < PInf = True"
| "NInf < Fin b = True"
| "NInf < PInf = True"
| "less_jsnum _ _ = False"

fun less_eq_jsnum :: "jsnum \<Rightarrow> jsnum \<Rightarrow> bool" where
  "Fin a \<le> Fin b = (a \<le> b)"
| "Fin a \<le> PInf = True"
| "NInf \<le> Fin b = True"
| "NInf \<le> PInf = True"
| "PInf \<le> PInf = True"
| "NInf \<le> NInf = True"
| "less_eq_jsnum _ _ = False"

instance ..

end

instance jsnum :: numeral
proof
  fix a b c :: jsnum
  show "a + b + c = a + (b + c)"
    by (cases a; cases b; cases c) simp_all
qed

text \<open>\<^verbatim>\<open>x === y\<close> on numbers: IEEE equality, false as soon as one side is \<^verbatim>\<open>NaN\<close>.\<close>

definition strict_eq :: "jsnum \<Rightarrow> jsnum \<Rightarrow> bool" where
  "strict_eq x y = (\<not> isNaN x \<and> \<not> isNaN y \<and> x = y)"

text \<open>
  \<^verbatim>\<open>x % y\<close>: the remainder has the sign of the dividend; it is \<^verbatim>\<open>NaN\<close> for an infinite
  dividend or a zero divisor, and the dividend itself for an infinite divisor.
\<close>

fun remainder :: "jsnum \<Rightarrow> jsnum \<Rightarrow> jsnum" where
  "remainder (Fin a) (Fin b) =
     (if b = 0 then NaN
      else Fin (a - b * (if 0 \<le> a / b then of_int \<lfloor>a / b\<rfloor> else of_int \<lceil>a / b\<rceil>)))"
| "remainder (Fin a) PInf = Fin a"
| "remainder (Fin a) NInf = Fin a"
| "remainder _ _ = NaN"

text \<open>The members of \<^verbatim>\<open>Math\<close> that ECMAScript defines exactly.\<close>

text \<open>\<^verbatim>\<open>Math.PI\<close> is the double \<^verbatim>\<open>0x400921FB54442D18\<close>, that is 3.141592653589793115997963...\<close>

definition Math_PI :: jsnum where
  "Math_PI = Fin (884279719003555 / 2 ^ 48)"

fun Math_abs :: "jsnum \<Rightarrow> jsnum" where
  "Math_abs NaN = NaN"
| "Math_abs PInf = PInf"
| "Math_abs NInf = PInf"
| "Math_abs (Fin a) = Fin \<bar>a\<bar>"

text \<open>\<^verbatim>\<open>Math.round\<close>: the nearest integer, a tie going to the larger one.\<close>

fun Math_round :: "jsnum \<Rightarrow> jsnum" where
  "Math_round (Fin a) = Fin (of_int \<lfloor>a + 1 / 2\<rfloor>)"
| "Math_round x = x"

text \<open>
  The members of \<^verbatim>\<open>Math\<close> whose results ECMAScript leaves to the implementation
  (``implementation-approximated''), and the exponentiation operator \<^verbatim>\<open>**\<close>, which is
  the same operation as \<^verbatim>\<open>Math.pow\<close>. The two engines take them as a parameter, so
  that a theorem quantified over \<open>m\<close> holds whatever these functions return.
\<close>

record Math =
  Math_sin :: "jsnum \<Rightarrow> jsnum"
  Math_cos :: "jsnum \<Rightarrow> jsnum"
  Math_tan :: "jsnum \<Rightarrow> jsnum"
  Math_sqrt :: "jsnum \<Rightarrow> jsnum"
  Math_atan2 :: "jsnum \<Rightarrow> jsnum \<Rightarrow> jsnum"
  Math_pow :: "jsnum \<Rightarrow> jsnum \<Rightarrow> jsnum"

text \<open>
  The reference instance: each function is the real one on finite arguments, with the
  special cases of ECMAScript. (The tangent of HOL is 0 where the cosine vanishes; no
  double is such a point.)
\<close>

fun ideal_sin :: "jsnum \<Rightarrow> jsnum" where
  "ideal_sin (Fin a) = Fin (sin a)"
| "ideal_sin _ = NaN"

fun ideal_cos :: "jsnum \<Rightarrow> jsnum" where
  "ideal_cos (Fin a) = Fin (cos a)"
| "ideal_cos _ = NaN"

fun ideal_tan :: "jsnum \<Rightarrow> jsnum" where
  "ideal_tan (Fin a) = Fin (tan a)"
| "ideal_tan _ = NaN"

fun ideal_sqrt :: "jsnum \<Rightarrow> jsnum" where
  "ideal_sqrt (Fin a) = (if a < 0 then NaN else Fin (sqrt a))"
| "ideal_sqrt PInf = PInf"
| "ideal_sqrt _ = NaN"

fun ideal_atan2 :: "jsnum \<Rightarrow> jsnum \<Rightarrow> jsnum" where
  "ideal_atan2 NaN _ = NaN"
| "ideal_atan2 _ NaN = NaN"
| "ideal_atan2 (Fin y) (Fin x) =
     (if 0 < x then Fin (arctan (y / x))
      else if x < 0 then (if 0 \<le> y then Fin (arctan (y / x) + pi) else Fin (arctan (y / x) - pi))
      else if 0 < y then Fin (pi / 2)
      else if y < 0 then Fin (- pi / 2)
      else Fin 0)"
| "ideal_atan2 (Fin y) PInf = Fin 0"
| "ideal_atan2 (Fin y) NInf = (if 0 \<le> y then Fin pi else Fin (- pi))"
| "ideal_atan2 PInf (Fin x) = Fin (pi / 2)"
| "ideal_atan2 NInf (Fin x) = Fin (- pi / 2)"
| "ideal_atan2 PInf PInf = Fin (pi / 4)"
| "ideal_atan2 PInf NInf = Fin (3 * pi / 4)"
| "ideal_atan2 NInf PInf = Fin (- pi / 4)"
| "ideal_atan2 NInf NInf = Fin (- 3 * pi / 4)"

fun ideal_pow :: "jsnum \<Rightarrow> jsnum \<Rightarrow> jsnum" where
  "ideal_pow _ NaN = NaN"
| "ideal_pow x (Fin y) =
     (if y = 0 then Fin 1
      else case x of
        NaN \<Rightarrow> NaN
      | PInf \<Rightarrow> (if 0 < y then PInf else Fin 0)
      | NInf \<Rightarrow> (if 0 < y then (if y \<in> \<int> \<and> odd \<lfloor>y\<rfloor> then NInf else PInf) else Fin 0)
      | Fin a \<Rightarrow>
          (if 0 < a then Fin (a powr y)
           else if a = 0 then (if 0 < y then Fin 0 else PInf)
           else if y \<in> \<int> then Fin (if odd \<lfloor>y\<rfloor> then - (\<bar>a\<bar> powr y) else \<bar>a\<bar> powr y)
           else NaN))"
| "ideal_pow NaN _ = NaN"
| "ideal_pow (Fin a) PInf =
     (if 1 < \<bar>a\<bar> then PInf else if \<bar>a\<bar> = 1 then NaN else Fin 0)"
| "ideal_pow (Fin a) NInf =
     (if 1 < \<bar>a\<bar> then Fin 0 else if \<bar>a\<bar> = 1 then NaN else PInf)"
| "ideal_pow _ PInf = PInf"
| "ideal_pow _ NInf = Fin 0"

definition Math_ideal :: Math where
  "Math_ideal = \<lparr>Math_sin = ideal_sin, Math_cos = ideal_cos, Math_tan = ideal_tan,
     Math_sqrt = ideal_sqrt, Math_atan2 = ideal_atan2, Math_pow = ideal_pow\<rparr>"

section \<open>The atmosphere model (QNH.js)\<close>

text \<open>
  The constants of \<^verbatim>\<open>QNH.js\<close>, under the names of \<^verbatim>\<open>constants.js\<close>; the local
  fall-backs of \<^verbatim>\<open>QNH.js\<close> (\<^verbatim>\<open>T0\<close>, \<^verbatim>\<open>L\<close>, \<^verbatim>\<open>g\<close>, \<^verbatim>\<open>Rs\<close>) have the same values.
\<close>

definition STANDARD_PRESSURE_HPA :: jsnum where
  "STANDARD_PRESSURE_HPA = Fin 1013.25"

definition INHG_TO_HPA :: jsnum where
  "INHG_TO_HPA = Fin 33.86389"

definition FEET_TO_METERS :: jsnum where
  "FEET_TO_METERS = Fin 0.3048"

definition STANDARD_TEMP_K :: jsnum where
  "STANDARD_TEMP_K = Fin 288.15"

definition TEMP_LAPSE_RATE :: jsnum where
  "TEMP_LAPSE_RATE = Fin 0.0065"

definition GRAVITY :: jsnum where
  "GRAVITY = Fin 9.80665"

definition GAS_CONSTANT_DRY_AIR :: jsnum where
  "GAS_CONSTANT_DRY_AIR = Fin 287.05287"

definition hardMin :: jsnum where
  "hardMin = 850"

definition hardMax :: jsnum where
  "hardMax = 1100"

definition warningMin :: jsnum where
  "warningMin = 920"

definition warningMax :: jsnum where
  "warningMax = 1060"

text \<open>
  \<^verbatim>\<open>calculate\<close> returns \<^verbatim>\<open>{error: true, msg}\<close> or a record with \<^verbatim>\<open>error: false\<close>: the two
  shapes are the two sides of a sum, the message is named by its key in
  \<^verbatim>\<open>ERROR_MESSAGES\<close>. A field the code leaves \<^verbatim>\<open>undefined\<close> is \<open>None\<close>.
\<close>

datatype qnh_error = INVALID_PRESSURE | PRESSURE_OUT_OF_RANGE

record atmosphere =
  correction :: "jsnum option"
  pressureAltitude :: "jsnum option"
  unit :: "string option"
  warning :: bool

definition pressureInHPa :: "jsnum \<Rightarrow> string \<Rightarrow> jsnum" where
  "pressureInHPa rawValue inputUnit =
     (if inputUnit = ''inHg'' then rawValue * INHG_TO_HPA else rawValue)"

definition correctionInFeet :: "Math \<Rightarrow> jsnum \<Rightarrow> jsnum" where
  "correctionInFeet m p =
     (Math_pow m (p / STANDARD_PRESSURE_HPA) (GAS_CONSTANT_DRY_AIR * TEMP_LAPSE_RATE / GRAVITY) - 1)
       * (STANDARD_TEMP_K / TEMP_LAPSE_RATE / FEET_TO_METERS)"

definition calculate :: "Math \<Rightarrow> jsnum \<Rightarrow> string \<Rightarrow> string \<Rightarrow> qnh_error + atmosphere" where
  "calculate m rawValue inputUnit outputUnit =
     (if isNaN rawValue \<or> rawValue \<le> 0 then Inl INVALID_PRESSURE
      else
        let p = pressureInHPa rawValue inputUnit in
        if p < hardMin \<or> p > hardMax then Inl PRESSURE_OUT_OF_RANGE
        else
          let w = (p < warningMin \<or> p > warningMax);
              c = correctionInFeet m p
          in
          if outputUnit = ''FL'' then
            Inr \<lparr>correction = Some (Math_round (c / 100)),
                 pressureAltitude = Some (Math_round ((- c) / 100)),
                 unit = Some ''FL'', warning = w\<rparr>
          else if outputUnit = ''feet'' then
            Inr \<lparr>correction = Some (Math_round c),
                 pressureAltitude = Some (Math_round (- c)),
                 unit = Some ''ft'', warning = w\<rparr>
          else if outputUnit = ''meters'' then
            Inr \<lparr>correction = Some (Math_round (c * FEET_TO_METERS)),
                 pressureAltitude = Some (Math_round ((- c) * FEET_TO_METERS)),
                 unit = Some ''m'', warning = w\<rparr>
          else
            Inr \<lparr>correction = None, pressureAltitude = None, unit = None, warning = w\<rparr>)"

section \<open>The geodesy engine (Vicenty.js)\<close>

definition WGS84_a :: jsnum where
  "WGS84_a = Fin 6378137"

definition WGS84_b :: jsnum where
  "WGS84_b = Fin 6356752.314245"

definition WGS84_f :: jsnum where
  "WGS84_f = 1 / Fin 298.257223563"

text \<open>The literal \<^verbatim>\<open>1e-12\<close> of both loops, under its name in the later revisions.\<close>

definition CONVERGENCE_THRESHOLD :: jsnum where
  "CONVERGENCE_THRESHOLD = Fin (1 / 10 ^ 12)"

definition toRad :: "jsnum \<Rightarrow> jsnum" where
  "toRad d = d * Math_PI / 180"

definition toDeg :: "jsnum \<Rightarrow> jsnum" where
  "toDeg r = r * 180 / Math_PI"

text \<open>
  The two \<^verbatim>\<open>throw new Error(...)\<close> of the module, named by the keys of their messages in
  \<^verbatim>\<open>ERROR_MESSAGES\<close>: the direct problem throws ``Formula failed to converge'', the inverse
  problem ``Antipodal Limit reached''. Both are the convergence error of the
  specification.
\<close>

datatype vincenty_error = CONVERGENCE_FAILED | ANTIPODAL_POINTS

record destination =
  lat :: jsnum
  lon :: jsnum

record inverse_result =
  distance :: jsnum
  initialBearing :: jsnum
  isCoincident :: bool

subsection \<open>calculateDestination\<close>

text \<open>
  The variables that the loop of \<^verbatim>\<open>calculateDestination\<close> assigns. \<open>d_updates\<close> is not a
  variable of the source: it counts the executions of the loop body, for the statements
  about the iteration budget.
\<close>

record direct_vars =
  d_sigma :: jsnum
  d_sigmaP :: jsnum
  d_sinSigma :: jsnum
  d_cosSigma :: jsnum
  d_cos2SigmaM :: jsnum
  d_deltaSigma :: jsnum
  d_updates :: nat

text \<open>The body of the \<^verbatim>\<open>while\<close> loop.\<close>

definition direct_update ::
    "Math \<Rightarrow> jsnum \<Rightarrow> jsnum \<Rightarrow> jsnum \<Rightarrow> jsnum \<Rightarrow> direct_vars \<Rightarrow> direct_vars" where
  "direct_update m s A B sigma1 v =
     (let sigma = d_sigma v;
          cos2SigmaM = Math_cos m (2 * sigma1 + sigma);
          sinSigma = Math_sin m sigma;
          cosSigma = Math_cos m sigma;
          deltaSigma = B * sinSigma * (cos2SigmaM + B / 4 * (cosSigma * (- 1 + 2 * cos2SigmaM * cos2SigmaM) -
            B / 6 * cos2SigmaM * (- 3 + 4 * sinSigma * sinSigma) * (- 3 + 4 * cos2SigmaM * cos2SigmaM)))
      in \<lparr>d_sigma = s / (WGS84_b * A) + deltaSigma, d_sigmaP = sigma, d_sinSigma = sinSigma,
          d_cosSigma = cosSigma, d_cos2SigmaM = cos2SigmaM, d_deltaSigma = deltaSigma,
          d_updates = Suc (d_updates v)\<rparr>)"

text \<open>
  \<^verbatim>\<open>while (Math.abs(sigma - sigmaP) > 1e-12 && --iterLimit > 0) { ... }\<close>: the decrement
  happens only when the first test holds, and the value the loop leaves in \<^verbatim>\<open>iterLimit\<close>
  is returned with the variables.
\<close>

function direct_loop ::
    "Math \<Rightarrow> jsnum \<Rightarrow> jsnum \<Rightarrow> jsnum \<Rightarrow> jsnum \<Rightarrow> direct_vars \<Rightarrow> int \<Rightarrow> direct_vars \<times> int" where
  "direct_loop m s A B sigma1 v iterLimit =
     (if Math_abs (d_sigma v - d_sigmaP v) > CONVERGENCE_THRESHOLD then
        (if iterLimit - 1 > 0
         then direct_loop m s A B sigma1 (direct_update m s A B sigma1 v) (iterLimit - 1)
         else (v, iterLimit - 1))
      else (v, iterLimit))"
  by pat_completeness auto
termination
  by (relation "measure (\<lambda>(m, s, A, B, sigma1, v, iterLimit). nat iterLimit)") auto

text \<open>
  The whole function, paired with the state in which its loop ended. The variables that
  the source declares without a value are \<^verbatim>\<open>undefined\<close> until the body runs, and
  \<^verbatim>\<open>undefined\<close> is \<^verbatim>\<open>NaN\<close> in every arithmetic use.
\<close>

definition destination_run ::
    "Math \<Rightarrow> jsnum \<Rightarrow> jsnum \<Rightarrow> jsnum \<Rightarrow> jsnum \<Rightarrow> (direct_vars \<times> int) \<times> (vincenty_error + destination)" where
  "destination_run m lat1 lon1 distanceMeters bearingDegrees =
     (let phi1 = toRad lat1;
          L1 = toRad lon1;
          alpha1 = toRad bearingDegrees;
          s = distanceMeters;
          sinAlpha1 = Math_sin m alpha1;
          cosAlpha1 = Math_cos m alpha1;
          tanU1 = (1 - WGS84_f) * Math_tan m phi1;
          cosU1 = 1 / Math_sqrt m (1 + tanU1 * tanU1);
          sinU1 = tanU1 * cosU1;
          sigma1 = Math_atan2 m tanU1 cosAlpha1;
          sinAlpha = cosU1 * sinAlpha1;
          cosSqAlpha = 1 - sinAlpha * sinAlpha;
          uSq = cosSqAlpha * (WGS84_a * WGS84_a - WGS84_b * WGS84_b) / (WGS84_b * WGS84_b);
          A = 1 + uSq / 16384 * (4096 + uSq * (- 768 + uSq * (320 - 175 * uSq)));
          B = uSq / 1024 * (256 + uSq * (- 128 + uSq * (74 - 47 * uSq)));
          exit = direct_loop m s A B sigma1
            \<lparr>d_sigma = s / (WGS84_b * A), d_sigmaP = 2 * Math_PI, d_sinSigma = NaN,
             d_cosSigma = NaN, d_cos2SigmaM = NaN, d_deltaSigma = NaN, d_updates = 0\<rparr> 100;
          iterLimit = snd exit;
          sigma = d_sigma (fst exit);
          sinSigma = d_sinSigma (fst exit);
          cosSigma = d_cosSigma (fst exit);
          cos2SigmaM = d_cos2SigmaM (fst exit)
      in (exit,
          if iterLimit = 0 then Inl CONVERGENCE_FAILED
          else
            let tmp = sinU1 * sinSigma - cosU1 * cosSigma * cosAlpha1;
                phi2 = Math_atan2 m (sinU1 * cosSigma + cosU1 * sinSigma * cosAlpha1)
                  ((1 - WGS84_f) * Math_sqrt m (sinAlpha * sinAlpha + tmp * tmp));
                lambda = Math_atan2 m (sinSigma * sinAlpha1)
                  (cosU1 * cosSigma - sinU1 * sinSigma * cosAlpha1);
                C = WGS84_f / 16 * cosSqAlpha * (4 + WGS84_f * (4 - 3 * cosSqAlpha));
                L = lambda - (1 - C) * WGS84_f * sinAlpha *
                  (sigma + C * sinSigma * (cos2SigmaM + C * cosSigma * (- 1 + 2 * cos2SigmaM * cos2SigmaM)));
                L2 = L1 + L
            in Inr \<lparr>lat = toDeg phi2, lon = toDeg L2\<rparr>))"

definition calculateDestination ::
    "Math \<Rightarrow> jsnum \<Rightarrow> jsnum \<Rightarrow> jsnum \<Rightarrow> jsnum \<Rightarrow> vincenty_error + destination" where
  "calculateDestination m lat1 lon1 distanceMeters bearingDegrees =
     snd (destination_run m lat1 lon1 distanceMeters bearingDegrees)"

subsection \<open>calculateDistance\<close>

text \<open>
  The variables that the loop of \<^verbatim>\<open>calculateDistance\<close> assigns; \<open>i_updates\<close> counts the
  completed executions of the loop body and is not a variable of the source.
\<close>

record inverse_vars =
  i_lambda :: jsnum
  i_lambdaP :: jsnum
  i_sinLambda :: jsnum
  i_cosLambda :: jsnum
  i_sinSigma :: jsnum
  i_cosSigma :: jsnum
  i_sigma :: jsnum
  i_sinAlpha :: jsnum
  i_cosSqAlpha :: jsnum
  i_cos2SigmaM :: jsnum
  i_C :: jsnum
  i_updates :: nat

text \<open>
  The body of the \<^verbatim>\<open>do ... while\<close> loop; \<open>None\<close> is its \<^verbatim>\<open>return\<close> statement, taken when
  \<^verbatim>\<open>sinSigma === 0\<close>.
\<close>

definition inverse_update ::
    "Math \<Rightarrow> jsnum \<Rightarrow> jsnum \<Rightarrow> jsnum \<Rightarrow> jsnum \<Rightarrow> jsnum \<Rightarrow> inverse_vars \<Rightarrow> inverse_vars option" where
  "inverse_update m L cosU1 sinU1 cosU2 sinU2 v =
     (let lambda = i_lambda v;
          sinLambda = Math_sin m lambda;
          cosLambda = Math_cos m lambda;
          sinSigma = Math_sqrt m ((cosU2 * sinLambda) * (cosU2 * sinLambda) +
            (cosU1 * sinU2 - sinU1 * cosU2 * cosLambda) * (cosU1 * sinU2 - sinU1 * cosU2 * cosLambda))
      in if strict_eq sinSigma 0 then None
         else
           let cosSigma = sinU1 * sinU2 + cosU1 * cosU2 * cosLambda;
               sigma = Math_atan2 m sinSigma cosSigma;
               sinAlpha = cosU1 * cosU2 * sinLambda / sinSigma;
               cosSqAlpha = 1 - sinAlpha * sinAlpha;
               cos2SigmaM0 = cosSigma - 2 * sinU1 * sinU2 / cosSqAlpha;
               cos2SigmaM = (if isNaN cos2SigmaM0 then 0 else cos2SigmaM0);
               C = WGS84_f / 16 * cosSqAlpha * (4 + WGS84_f * (4 - 3 * cosSqAlpha))
           in Some \<lparr>i_lambda = L + (1 - C) * WGS84_f * sinAlpha *
                   (sigma + C * sinSigma * (cos2SigmaM + C * cosSigma * (- 1 + 2 * cos2SigmaM * cos2SigmaM))),
                 i_lambdaP = lambda, i_sinLambda = sinLambda, i_cosLambda = cosLambda,
                 i_sinSigma = sinSigma, i_cosSigma = cosSigma, i_sigma = sigma,
                 i_sinAlpha = sinAlpha, i_cosSqAlpha = cosSqAlpha, i_cos2SigmaM = cos2SigmaM,
                 i_C = C, i_updates = Suc (i_updates v)\<rparr>)"

text \<open>
  How the loop is left: by the \<^verbatim>\<open>return\<close> of its body (with the variables as they were
  before that execution of the body), or by its condition
  \<^verbatim>\<open>Math.abs(lambda - lambdaP) > 1e-12 && --iterLimit > 0\<close> becoming false (with the
  variables and the value left in \<^verbatim>\<open>iterLimit\<close>).
\<close>

datatype inverse_exit = Coincident inverse_vars | Done inverse_vars int

function inverse_loop ::
    "Math \<Rightarrow> jsnum \<Rightarrow> jsnum \<Rightarrow> jsnum \<Rightarrow> jsnum \<Rightarrow> jsnum \<Rightarrow> inverse_vars \<Rightarrow> int \<Rightarrow> inverse_exit" where
  "inverse_loop m L cosU1 sinU1 cosU2 sinU2 v iterLimit =
     (case inverse_update m L cosU1 sinU1 cosU2 sinU2 v of
        None \<Rightarrow> Coincident v
      | Some v' \<Rightarrow>
          if Math_abs (i_lambda v' - i_lambdaP v') > CONVERGENCE_THRESHOLD then
            (if iterLimit - 1 > 0
             then inverse_loop m L cosU1 sinU1 cosU2 sinU2 v' (iterLimit - 1)
             else Done v' (iterLimit - 1))
          else Done v' iterLimit)"
  by pat_completeness auto
termination
  by (relation "measure (\<lambda>(m, L, cosU1, sinU1, cosU2, sinU2, v, iterLimit). nat iterLimit)") auto

text \<open>
  The statements after the loop and its test of \<^verbatim>\<open>iterLimit\<close>: the series for the distance and
  the bearing, from the variables as the loop leaves them.
\<close>

definition distance_result ::
    "Math \<Rightarrow> jsnum \<Rightarrow> jsnum \<Rightarrow> jsnum \<Rightarrow> jsnum \<Rightarrow> inverse_vars \<Rightarrow> inverse_result" where
  "distance_result m cosU1 sinU1 cosU2 sinU2 v =
     (let sinLambda = i_sinLambda v; cosLambda = i_cosLambda v;
          sinSigma = i_sinSigma v; cosSigma = i_cosSigma v; sigma = i_sigma v;
          cosSqAlpha = i_cosSqAlpha v; cos2SigmaM = i_cos2SigmaM v;
          uSq = cosSqAlpha * (WGS84_a * WGS84_a - WGS84_b * WGS84_b) / (WGS84_b * WGS84_b);
          A = 1 + uSq / 16384 * (4096 + uSq * (- 768 + uSq * (320 - 175 * uSq)));
          B = uSq / 1024 * (256 + uSq * (- 128 + uSq * (74 - 47 * uSq)));
          deltaSigma = B * sinSigma * (cos2SigmaM + B / 4 * (cosSigma * (- 1 + 2 * cos2SigmaM * cos2SigmaM) -
            B / 6 * cos2SigmaM * (- 3 + 4 * sinSigma * sinSigma) * (- 3 + 4 * cos2SigmaM * cos2SigmaM)));
          s = WGS84_b * A * (sigma - deltaSigma);
          fwdAz = Math_atan2 m (cosU2 * sinLambda) (cosU1 * sinU2 - sinU1 * cosU2 * cosLambda);
          initialBearing = remainder (toDeg fwdAz + 360) 360
      in \<lparr>distance = s, initialBearing = initialBearing, isCoincident = False\<rparr>)"

text \<open>
  The whole function: the reduced latitudes, the loop, and what follows it. The first component
  is how the loop was left, the second what the function returns or throws.
\<close>

definition distance_run ::
    "Math \<Rightarrow> jsnum \<Rightarrow> jsnum \<Rightarrow> jsnum \<Rightarrow> jsnum \<Rightarrow> inverse_exit \<times> (vincenty_error + inverse_result)" where
  "distance_run m lat1 lon1 lat2 lon2 =
     (let phi1 = toRad lat1; L1 = toRad lon1;
          phi2 = toRad lat2; L2 = toRad lon2;
          L = L2 - L1;
          tanU1 = (1 - WGS84_f) * Math_tan m phi1;
          cosU1 = 1 / Math_sqrt m (1 + tanU1 * tanU1);
          sinU1 = tanU1 * cosU1;
          tanU2 = (1 - WGS84_f) * Math_tan m phi2;
          cosU2 = 1 / Math_sqrt m (1 + tanU2 * tanU2);
          sinU2 = tanU2 * cosU2;
          exit = inverse_loop m L cosU1 sinU1 cosU2 sinU2
            \<lparr>i_lambda = L, i_lambdaP = NaN, i_sinLambda = NaN, i_cosLambda = NaN,
             i_sinSigma = NaN, i_cosSigma = NaN, i_sigma = NaN, i_sinAlpha = NaN,
             i_cosSqAlpha = NaN, i_cos2SigmaM = NaN, i_C = NaN, i_updates = 0\<rparr> 100
      in (exit,
          case exit of
            Coincident v \<Rightarrow> Inr \<lparr>distance = 0, initialBearing = 0, isCoincident = True\<rparr>
          | Done v iterLimit \<Rightarrow>
              if iterLimit = 0 then Inl ANTIPODAL_POINTS
              else Inr (distance_result m cosU1 sinU1 cosU2 sinU2 v)))"

definition calculateDistance ::
    "Math \<Rightarrow> jsnum \<Rightarrow> jsnum \<Rightarrow> jsnum \<Rightarrow> jsnum \<Rightarrow> vincenty_error + inverse_result" where
  "calculateDistance m lat1 lon1 lat2 lon2 = snd (distance_run m lat1 lon1 lat2 lon2)"

section \<open>Predicates and inputs used in the statements\<close>





text \<open>
  The values of \<open>\<lambda>\<close> that the inverse loop visits between two points of the equator 180 degrees
  apart: just below \<open>\<pi>\<close> or just above it, never within the threshold of the previous one.
\<close>

definition antipodal_inv :: "inverse_vars \<Rightarrow> bool" where
  "antipodal_inv v \<longleftrightarrow>
     (\<exists>l. i_lambda v = Fin l \<and>
        (99 / 100 * pi \<le> l \<and> l < pi \<or> 1001 / 1000 * pi \<le> l \<and> l \<le> 10034 / 10000 * pi))"


section \<open>Facts about numbers\<close>

lemma zero_Fin [simp]: "(0::jsnum) = Fin 0"
  by (simp add: zero_jsnum_def)

lemma one_Fin [simp]: "(1::jsnum) = Fin 1"
  by (simp add: one_jsnum_def)

lemma numeral_Fin [simp]: "(numeral k :: jsnum) = Fin (numeral k)"
  by (induction k rule: num.induct) (simp_all only: numeral.simps one_Fin plus_jsnum.simps)

lemma minus_Fin [simp]: "Fin a - Fin b = Fin (a - b)"
  by (simp add: minus_jsnum_def)

lemma infinity_simps [simp]: "infinity True = NInf" "infinity False = PInf"
  by (simp_all add: infinity_def)

lemma toRad_Fin: "toRad (Fin d) = Fin (d * (884279719003555 / 2 ^ 48) / 180)"
  by (simp add: toRad_def Math_PI_def)






subsection \<open>Bounds of \<open>\<pi>\<close>\<close>

text \<open>
  \<^verbatim>\<open>Math.PI\<close> is below \<open>\<pi>\<close>: the cosine of its half is still positive, by the Taylor polynomial of
  degree 20 with its remainder, evaluated in Horner form with decimal bounds.
\<close>

lemma sum_22: "(\<Sum>m<22. g m) = g 0 + g 1 + g 2 + g 3 + g 4 + g 5 + g 6 + g 7 + g 8 + g 9 + g 10
    + g 11 + g 12 + g 13 + g 14 + g 15 + g 16 + g 17 + g 18 + g 19 + g 20 + g 21" for g :: "nat \<Rightarrow> real"
  by (simp add: eval_nat_numeral)

lemma cos_coeff_simps:
  "cos_coeff 0 = 1" "cos_coeff 1 = 0" "cos_coeff 2 = - 1 / fact 2" "cos_coeff 3 = 0"
  "cos_coeff 4 = 1 / fact 4" "cos_coeff 5 = 0" "cos_coeff 6 = - 1 / fact 6" "cos_coeff 7 = 0"
  "cos_coeff 8 = 1 / fact 8" "cos_coeff 9 = 0" "cos_coeff 10 = - 1 / fact 10" "cos_coeff 11 = 0"
  "cos_coeff 12 = 1 / fact 12" "cos_coeff 13 = 0" "cos_coeff 14 = - 1 / fact 14" "cos_coeff 15 = 0"
  "cos_coeff 16 = 1 / fact 16" "cos_coeff 17 = 0" "cos_coeff 18 = - 1 / fact 18" "cos_coeff 19 = 0"
  "cos_coeff 20 = 1 / fact 20" "cos_coeff 21 = 0"
  by (simp_all add: cos_coeff_def)

lemma cos_taylor_22:
  "(\<Sum>m<22. cos_coeff m * y ^ m) - y ^ 22 / fact 22 =
     1 - y^2 / 2 * (1 - y^2 / 12 * (1 - y^2 / 30 * (1 - y^2 / 56 * (1 - y^2 / 90 *
       (1 - y^2 / 132 * (1 - y^2 / 182 * (1 - y^2 / 240 * (1 - y^2 / 306 * (1 - y^2 / 380 *
       (1 - y^2 / 462))))))))))" for y :: real
  unfolding sum_22 cos_coeff_simps by (simp add: fact_numeral field_simps)

lemma cos_lower:
  assumes "0 < x"
  shows "(\<Sum>m<n. cos_coeff m * x ^ m) - x ^ n / fact n \<le> cos x"
    and "cos x \<le> (\<Sum>m<n. cos_coeff m * x ^ m) + x ^ n / fact n"
proof -
  have le: "(\<Sum>m<n. cos_coeff m * x ^ m) - x ^ n / fact n \<le> cos x \<and>
    cos x \<le> (\<Sum>m<n. cos_coeff m * x ^ m) + x ^ n / fact n"
  proof (cases "n = 0")
    case True
    then show ?thesis using cos_le_one [of x] cos_ge_minus_one [of x] by simp
  next
    case False
    then obtain t where
      t: "cos x = (\<Sum>m<n. cos_coeff m * x ^ m) + (cos (t + 1 / 2 * real n * pi) / fact n) * x ^ n"
      using Maclaurin_cos_expansion2 [of x n] assms by auto
    define c where "c = cos (t + 1 / 2 * real n * pi)"
    have c: "- 1 \<le> c" "c \<le> 1" by (simp_all add: c_def)
    have p: "0 \<le> x ^ n / fact n" using assms by simp
    have "(c / fact n) * x ^ n = c * (x ^ n / fact n)" by simp
    moreover have "- (x ^ n / fact n) \<le> c * (x ^ n / fact n)"
      using c p by (metis mult_minus_left mult_right_mono mult_1)
    moreover have "c * (x ^ n / fact n) \<le> x ^ n / fact n"
      using c p by (metis mult_right_mono mult_1)
    ultimately show ?thesis using t unfolding c_def by linarith
  qed
  then show "(\<Sum>m<n. cos_coeff m * x ^ m) - x ^ n / fact n \<le> cos x"
    and "cos x \<le> (\<Sum>m<n. cos_coeff m * x ^ m) + x ^ n / fact n" by simp_all
qed

lemma double_pi_less: "884279719003555 / 2 ^ 48 < pi"
proof -
  define y :: real where "y = 884279719003555 / 2 ^ 49"
  define x where "x = y^2"
  have x: "x = 781950621441006189802102638025 / 2 ^ 98"
    by (simp add: x_def y_def power_divide)
  define h10 where "h10 = 1 - x / 462"
  define h9 where "h9 = 1 - x / 380 * h10"
  define h8 where "h8 = 1 - x / 306 * h9"
  define h7 where "h7 = 1 - x / 240 * h8"
  define h6 where "h6 = 1 - x / 182 * h7"
  define h5 where "h5 = 1 - x / 132 * h6"
  define h4 where "h4 = 1 - x / 90 * h5"
  define h3 where "h3 = 1 - x / 56 * h4"
  define h2 where "h2 = 1 - x / 30 * h3"
  define h1 where "h1 = 1 - x / 12 * h2"
  define h0 where "h0 = 1 - x / 2 * h1"
  have b10: "99465930497776549899926070 / 10 ^ 26 \<le> h10" "h10 \<le> 99465930497776549899926071 / 10 ^ 26"
    by (simp_all add: h10_def x)
  have b9: "99354151720132037092604344 / 10 ^ 26 \<le> h9" "h9 \<le> 99354151720132037092604345 / 10 ^ 26"
    using b10 by (simp_all add: h9_def x)
  have b8: "99198867505650723082586945 / 10 ^ 26 \<le> h8" "h8 \<le> 99198867505650723082586946 / 10 ^ 26"
    using b9 by (simp_all add: h8_def x)
  have b7: "98980152521544947430870206 / 10 ^ 26 \<le> h7" "h7 \<le> 98980152521544947430870207 / 10 ^ 26"
    using b8 by (simp_all add: h7_def x)
  have b6: "98658111333863824293897946 / 10 ^ 26 \<le> h6" "h6 \<le> 98658111333863824293897947 / 10 ^ 26"
    using b7 by (simp_all add: h6_def x)
  have b5: "98155839905636616937050999 / 10 ^ 26 \<le> h5" "h5 \<le> 98155839905636616937051000 / 10 ^ 26"
    using b6 by (simp_all add: h5_def x)
  have b4: "97309001917985295627818411 / 10 ^ 26 \<le> h4" "h4 \<le> 97309001917985295627818412 / 10 ^ 26"
    using b5 by (simp_all add: h4_def x)
  have b3: "95712493957163569473584970 / 10 ^ 26 \<le> h3" "h3 \<le> 95712493957163569473584971 / 10 ^ 26"
    using b4 by (simp_all add: h3_def x)
  have b2: "92127962903342832221909563 / 10 ^ 26 \<le> h2" "h2 \<le> 92127962903342832221909565 / 10 ^ 26"
    using b3 by (simp_all add: h2_def x)
  have b1: "81056946913870218517902161 / 10 ^ 26 \<le> h1" "h1 \<le> 81056946913870218517902162 / 10 ^ 26"
    using b2 by (simp_all add: h1_def x)
  have b0: "6115058293 / 10 ^ 26 \<le> h0" "h0 \<le> 6115058295 / 10 ^ 26"
    using b1 by (simp_all add: h0_def x)
  have "0 < h0" using b0 by simp
  also have "h0 = (\<Sum>m<22. cos_coeff m * y ^ m) - y ^ 22 / fact 22"
    unfolding cos_taylor_22 h0_def h1_def h2_def h3_def h4_def h5_def h6_def h7_def h8_def
      h9_def h10_def x_def ..
  also have "\<dots> \<le> cos y" by (rule cos_lower(1)) (simp add: y_def)
  finally have pos: "0 < cos y" .
  have y2: "y \<le> 2" by (simp add: y_def)
  have "y < pi / 2"
  proof (rule ccontr)
    assume "\<not> y < pi / 2"
    then have "pi / 2 \<le> y" by simp
    moreover have "y \<le> pi" using y2 pi_ge_two by linarith
    ultimately have "cos y \<le> cos (pi / 2)"
      by (intro cos_monotone_0_pi_le) auto
    with pos show False by simp
  qed
  then show ?thesis by (simp add: y_def)
qed

lemma sum_10: "(\<Sum>m<10. g m) = g 0 + g 1 + g 2 + g 3 + g 4 + g 5 + g 6 + g 7 + g 8 + g 9"
  for g :: "nat \<Rightarrow> real"
  by (simp add: eval_nat_numeral)

lemma pi_less_3148: "pi < 3.148"
proof -
  define z :: real where "z = 787 / 500"
  have z: "0 < z" by (simp add: z_def)
  have "cos z \<le> (\<Sum>m<10. cos_coeff m * z ^ m) + z ^ 10 / fact 10"
    using cos_lower(2) [OF z] .
  also have "\<dots> < 0"
    unfolding sum_10 cos_coeff_simps by (simp add: z_def fact_numeral power_divide)
  finally have neg: "cos z < 0" .
  have "pi / 2 < z"
  proof (rule ccontr)
    assume "\<not> pi / 2 < z"
    then have "z \<le> pi / 2" by simp
    then have "0 \<le> cos z" using z by (intro cos_ge_zero) auto
    with neg show False by simp
  qed
  then show ?thesis by (simp add: z_def)
qed


lemma second_quadrant:
  assumes "pi / 2 < l" "l < 3 * pi / 2"
  shows "cos l < 0" and "arctan (sin l / cos l) = l - pi"
proof -
  have "0 < cos (l - pi)" using assms by (intro cos_gt_zero_pi) auto
  then show "cos l < 0" by simp
  have "tan (l - pi) = tan l" using tan_periodic_pi [of "l - pi"] by simp
  moreover have "arctan (tan (l - pi)) = l - pi" using assms by (intro arctan_tan) auto
  ultimately show "arctan (sin l / cos l) = l - pi" by (simp add: tan_def)
qed

lemma minus_NaN: "x - NaN = NaN" "NaN - x = NaN"
  by (cases x; simp add: minus_jsnum_def)+

subsection \<open>The arc tangent and the remainder\<close>




subsection \<open>The auxiliary sphere and the series\<close>











section \<open>Facts about the two loops\<close>

declare direct_loop.simps [simp del] inverse_loop.simps [simp del]

lemma direct_loop_exit:
  "0 < n \<Longrightarrow> direct_loop m s A B sigma1 v n = (v', k) \<Longrightarrow>
     (k = 0 \<and> Math_abs (d_sigma v' - d_sigmaP v') > CONVERGENCE_THRESHOLD \<and>
        int (d_updates v') = int (d_updates v) + n - 1) \<or>
     (0 < k \<and> \<not> Math_abs (d_sigma v' - d_sigmaP v') > CONVERGENCE_THRESHOLD \<and>
        int (d_updates v') + k = int (d_updates v) + n)"
proof (induction m s A B sigma1 v n arbitrary: v' k rule: direct_loop.induct)
  case (1 m s A B sigma1 v iterLimit)
  show ?case
  proof (cases "Math_abs (d_sigma v - d_sigmaP v) > CONVERGENCE_THRESHOLD")
    case False
    with "1.prems" show ?thesis
      by (simp add: direct_loop.simps [of m s A B sigma1 v iterLimit])
  next
    case test: True
    show ?thesis
    proof (cases "iterLimit - 1 > 0")
      case False
      with test "1.prems" show ?thesis
        by (auto simp add: direct_loop.simps [of m s A B sigma1 v iterLimit])
    next
      case True
      with test "1.prems" have
        "direct_loop m s A B sigma1 (direct_update m s A B sigma1 v) (iterLimit - 1) = (v', k)"
        by (simp add: direct_loop.simps [of m s A B sigma1 v iterLimit])
      from "1.IH" [OF test True True this]
      show ?thesis by (auto simp: direct_update_def Let_def)
    qed
  qed
qed

lemma inverse_loop_exit:
  "0 < n \<Longrightarrow> inverse_loop m L cosU1 sinU1 cosU2 sinU2 v n = e \<Longrightarrow>
     (case e of
        Coincident v' \<Rightarrow> int (i_updates v') < int (i_updates v) + n
      | Done v' k \<Rightarrow>
          (k = 0 \<and> Math_abs (i_lambda v' - i_lambdaP v') > CONVERGENCE_THRESHOLD \<and>
             int (i_updates v') = int (i_updates v) + n) \<or>
          (0 < k \<and> \<not> Math_abs (i_lambda v' - i_lambdaP v') > CONVERGENCE_THRESHOLD \<and>
             int (i_updates v') + k = int (i_updates v) + n + 1))"
proof (induction m L cosU1 sinU1 cosU2 sinU2 v n arbitrary: e rule: inverse_loop.induct)
  case (1 m L cosU1 sinU1 cosU2 sinU2 v iterLimit)
  note unfold = inverse_loop.simps [of m L cosU1 sinU1 cosU2 sinU2 v iterLimit]
  show ?case
  proof (cases "inverse_update m L cosU1 sinU1 cosU2 sinU2 v")
    case None
    with "1.prems" show ?thesis by (auto simp: unfold)
  next
    case (Some w)
    then have w: "i_updates w = Suc (i_updates v)"
      by (auto simp: inverse_update_def Let_def split: if_splits)
    show ?thesis
    proof (cases "Math_abs (i_lambda w - i_lambdaP w) > CONVERGENCE_THRESHOLD")
      case False
      with Some "1.prems" w show ?thesis by (auto simp: unfold)
    next
      case test: True
      show ?thesis
      proof (cases "iterLimit - 1 > 0")
        case False
        with test Some "1.prems" w show ?thesis by (auto simp: unfold)
      next
        case True
        with test Some "1.prems" have
          "inverse_loop m L cosU1 sinU1 cosU2 sinU2 w (iterLimit - 1) = e"
          by (simp add: unfold)
        from "1.IH" [OF Some test True True this] w
        show ?thesis by (auto split: inverse_exit.splits)
      qed
    qed
  qed
qed

lemma distance_run_loop:
  "\<exists>L cosU1 sinU1 cosU2 sinU2 v0.
     fst (distance_run m lat1 lon1 lat2 lon2) = inverse_loop m L cosU1 sinU1 cosU2 sinU2 v0 100 \<and>
     i_updates v0 = 0"
  unfolding distance_run_def Let_def fst_conv
  by (intro exI conjI, rule refl, simp)

lemma destination_run_loop:
  "\<exists>s A B sigma1 v0.
     fst (destination_run m lat1 lon1 distanceMeters bearingDegrees) = direct_loop m s A B sigma1 v0 100 \<and>
     d_updates v0 = 0"
  unfolding destination_run_def Let_def fst_conv
  by (intro exI conjI, rule refl, simp)

lemma calculateDistance_cases:
  "case fst (distance_run m lat1 lon1 lat2 lon2) of
     Coincident v \<Rightarrow>
       calculateDistance m lat1 lon1 lat2 lon2 =
         Inr \<lparr>distance = 0, initialBearing = 0, isCoincident = True\<rparr>
   | Done v k \<Rightarrow>
       if k = 0 then calculateDistance m lat1 lon1 lat2 lon2 = Inl ANTIPODAL_POINTS
       else \<exists>r. calculateDistance m lat1 lon1 lat2 lon2 = Inr r \<and> \<not> isCoincident r"
  by (simp add: calculateDistance_def distance_run_def distance_result_def Let_def split: inverse_exit.splits)

lemma calculateDestination_cases:
  "if snd (fst (destination_run m lat1 lon1 distanceMeters bearingDegrees)) = 0
   then calculateDestination m lat1 lon1 distanceMeters bearingDegrees = Inl CONVERGENCE_FAILED
   else \<exists>r. calculateDestination m lat1 lon1 distanceMeters bearingDegrees = Inr r"
  by (simp add: calculateDestination_def destination_run_def Let_def)



lemma inverse_loop_coincident:
  "inverse_update m L cosU1 sinU1 cosU2 sinU2 v = None \<Longrightarrow>
     inverse_loop m L cosU1 sinU1 cosU2 sinU2 v n = Coincident v"
  by (simp add: inverse_loop.simps [of m L cosU1 sinU1 cosU2 sinU2 v n])



text \<open>
  One pass of the inverse loop between two points of the equator, for \<open>\<lambda>\<close> in the second and in the
  third quadrant: \<open>sin \<alpha>\<close> is 1 or -1, \<open>cos\<^sup>2 \<alpha>\<close> is 0, and the next \<open>\<lambda>\<close> is \<open>L \<plusminus> f \<sigma>\<close>.
\<close>

lemma equator_update_below:
  assumes "i_lambda v = Fin l" "pi / 2 < l" "l < pi"
  shows "\<exists>w. inverse_update Math_ideal (Fin P) (Fin 1) (Fin 0) (Fin 1) (Fin 0) v = Some w \<and>
    i_lambda w = Fin (P + l / 298.257223563) \<and> i_lambdaP w = Fin l"
  using assms second_quadrant [of l] sin_gt_zero [of l]
  by (simp add: inverse_update_def Let_def Math_ideal_def strict_eq_def WGS84_f_def minus_NaN)

lemma equator_update_above:
  assumes "i_lambda v = Fin l" "pi < l" "l < 3 * pi / 2"
  shows "\<exists>w. inverse_update Math_ideal (Fin P) (Fin 1) (Fin 0) (Fin 1) (Fin 0) v = Some w \<and>
    i_lambda w = Fin (P - (2 * pi - l) / 298.257223563) \<and> i_lambdaP w = Fin l"
proof -
  have "0 < sin (l - pi)" using assms by (intro sin_gt_zero) auto
  then have s: "sin l < 0" by simp
  have c: "cos l < 0" and a: "arctan (sin l / cos l) = l - pi"
    using second_quadrant [of l] assms by auto
  have "arctan (- sin l / cos l) = pi - l"
    using a arctan_minus [of "sin l / cos l"] by simp
  with s c assms(1) show ?thesis
    by (simp add: inverse_update_def Let_def Math_ideal_def strict_eq_def WGS84_f_def minus_NaN)
qed

lemma inverse_loop_exhaust:
  "(\<forall>v. I v \<longrightarrow> (\<exists>w. inverse_update m L cosU1 sinU1 cosU2 sinU2 v = Some w \<and> I w \<and>
        Math_abs (i_lambda w - i_lambdaP w) > CONVERGENCE_THRESHOLD)) \<Longrightarrow>
   I v \<Longrightarrow> 0 < n \<Longrightarrow> \<exists>w. inverse_loop m L cosU1 sinU1 cosU2 sinU2 v n = Done w 0"
proof (induction m L cosU1 sinU1 cosU2 sinU2 v n rule: inverse_loop.induct)
  case (1 m L cosU1 sinU1 cosU2 sinU2 v iterLimit)
  note unfold = inverse_loop.simps [of m L cosU1 sinU1 cosU2 sinU2 v iterLimit]
  from "1.prems"(1,2) obtain w where
    w: "inverse_update m L cosU1 sinU1 cosU2 sinU2 v = Some w" "I w"
      "Math_abs (i_lambda w - i_lambdaP w) > CONVERGENCE_THRESHOLD"
    by blast
  show ?case
  proof (cases "iterLimit - 1 > 0")
    case True
    from "1.IH" [OF w(1) w(3) True "1.prems"(1) w(2) True]
    show ?thesis using w True by (simp add: unfold)
  next
    case False
    with "1.prems"(3) have "iterLimit - 1 = 0" by simp
    then show ?thesis unfolding unfold using w by simp
  qed
qed







lemma inverse_loop_stop:
  "inverse_update m L cosU1 sinU1 cosU2 sinU2 v = Some w \<Longrightarrow>
   \<not> Math_abs (i_lambda w - i_lambdaP w) > CONVERGENCE_THRESHOLD \<Longrightarrow>
   inverse_loop m L cosU1 sinU1 cosU2 sinU2 v n = Done w n"
  by (simp add: inverse_loop.simps [of m L cosU1 sinU1 cosU2 sinU2 v n])


text \<open>
  An argument that is \<^verbatim>\<open>NaN\<close> is not rejected: the loop ends after one pass, since the
  comparison with the threshold is false, and the result has \<^verbatim>\<open>NaN\<close> fields.
\<close>

lemma calculateDistance_NaN:
  "calculateDistance Math_ideal NaN 0 0 0 =
     Inr \<lparr>distance = NaN, initialBearing = NaN, isCoincident = False\<rparr>"
proof -
  define v0 where "v0 = \<lparr>i_lambda = Fin 0, i_lambdaP = NaN, i_sinLambda = NaN, i_cosLambda = NaN,
             i_sinSigma = NaN, i_cosSigma = NaN, i_sigma = NaN, i_sinAlpha = NaN,
             i_cosSqAlpha = NaN, i_cos2SigmaM = NaN, i_C = NaN, i_updates = 0\<rparr>"
  define w where "w = \<lparr>i_lambda = NaN, i_lambdaP = Fin 0, i_sinLambda = Fin 0, i_cosLambda = Fin 1,
             i_sinSigma = NaN, i_cosSigma = NaN, i_sigma = NaN, i_sinAlpha = NaN,
             i_cosSqAlpha = NaN, i_cos2SigmaM = Fin 0, i_C = NaN, i_updates = Suc 0\<rparr>"
  have upd: "inverse_update Math_ideal (Fin 0) NaN NaN (Fin 1) (Fin 0) v0 = Some w"
    by (simp add: inverse_update_def Let_def Math_ideal_def strict_eq_def minus_NaN v0_def w_def WGS84_f_def)
  have "\<not> Math_abs (i_lambda w - i_lambdaP w) > CONVERGENCE_THRESHOLD"
    by (simp add: w_def minus_NaN)
  from inverse_loop_stop [OF upd this]
  have loop: "inverse_loop Math_ideal (Fin 0) NaN NaN (Fin 1) (Fin 0) v0 100 = Done w 100" .
  have res: "distance_result Math_ideal NaN NaN (Fin 1) (Fin 0) w =
      \<lparr>distance = NaN, initialBearing = NaN, isCoincident = False\<rparr>"
    by (simp add: distance_result_def Let_def Math_ideal_def w_def minus_NaN toDeg_def WGS84_a_def WGS84_b_def)
  show ?thesis
    by (simp add: calculateDistance_def distance_run_def Let_def toRad_def Math_PI_def
        Math_ideal_def WGS84_f_def)
      (simp add: Math_ideal_def [symmetric] v0_def [symmetric] loop res)
qed

section \<open>Claims about the atmosphere model\<close>

text \<open>
  C5. For a finite positive raw value the calculation fails, with the out-of-range
  error, exactly when the pressure normalised to hPa is outside [850, 1100]; when it
  succeeds the warning flag is set exactly on [850, 920) and (1060, 1100], so that 850 and
  1100 succeed with the warning and 920 and 1060 without.
\<close>

theorem calculate_range:
  assumes "0 < r" and "pressureInHPa (Fin r) inputUnit = Fin p"
  shows "(calculate m (Fin r) inputUnit outputUnit = Inl PRESSURE_OUT_OF_RANGE
            \<longleftrightarrow> \<not> (850 \<le> p \<and> p \<le> 1100)) \<and>
         (850 \<le> p \<and> p \<le> 1100 \<longrightarrow>
            (\<exists>res. calculate m (Fin r) inputUnit outputUnit = Inr res \<and>
               (warning res \<longleftrightarrow> (850 \<le> p \<and> p < 920) \<or> (1060 < p \<and> p \<le> 1100))))"
  using assms
  by (auto simp: calculate_def Let_def hardMin_def hardMax_def warningMin_def warningMax_def)

theorem calculate_range_witness:
  "(0::real) < 850 \<and> pressureInHPa (Fin 850) ''hPa'' = Fin 850 \<and>
   calculate Math_ideal (Fin 850) ''hPa'' ''feet'' \<noteq> Inl PRESSURE_OUT_OF_RANGE \<and>
   (\<exists>res. calculate Math_ideal (Fin 850) ''hPa'' ''feet'' = Inr res \<and> warning res)"
proof -
  have p: "pressureInHPa (Fin 850) ''hPa'' = Fin 850"
    by (simp add: pressureInHPa_def)
  show ?thesis
    using calculate_range [of 850 "''hPa''" 850 Math_ideal "''feet''", OF _ p] p by simp
qed

text \<open>
  C6, as the code has it. The calculation fails with the invalid-pressure error exactly
  when the raw value is \<^verbatim>\<open>NaN\<close> or at most zero (\<^verbatim>\<open>-Infinity\<close> included), whatever the
  units; \<^verbatim>\<open>+Infinity\<close> passes this validation and is rejected by the range check, with the
  out-of-range error.
\<close>

theorem calculate_invalid:
  "(calculate m rawValue inputUnit outputUnit = Inl INVALID_PRESSURE
      \<longleftrightarrow> isNaN rawValue \<or> rawValue \<le> 0) \<and>
   calculate m NInf inputUnit outputUnit = Inl INVALID_PRESSURE \<and>
   calculate m PInf inputUnit outputUnit = Inl PRESSURE_OUT_OF_RANGE"
  by (simp add: calculate_def Let_def pressureInHPa_def INHG_TO_HPA_def hardMin_def hardMax_def)

text \<open>
  C6, as stated, fails at \<^verbatim>\<open>+Infinity\<close>: a raw value that is not finite, and that the
  calculation does not reject as invalid.
\<close>

theorem calculate_invalid_counterexample:
  "calculate Math_ideal PInf ''hPa'' ''feet'' = Inl PRESSURE_OUT_OF_RANGE \<and>
   calculate Math_ideal PInf ''hPa'' ''feet'' \<noteq> Inl INVALID_PRESSURE"
  by (simp add: calculate_def Let_def pressureInHPa_def hardMin_def hardMax_def)




text \<open>
  C10. For a valid pressure (finite, positive, within [850, 1100] hPa once normalised) and
  an output unit other than \<^verbatim>\<open>'FL'\<close>, \<^verbatim>\<open>'feet'\<close> and \<^verbatim>\<open>'meters'\<close>, the calculation returns a
  success record with the computed warning flag whose correction, pressure altitude and
  unit are undefined.
\<close>

theorem calculate_unknown_unit:
  assumes "0 < r" and "pressureInHPa (Fin r) inputUnit = Fin p"
    and "850 \<le> p" and "p \<le> 1100"
    and "outputUnit \<noteq> ''FL''" and "outputUnit \<noteq> ''feet''" and "outputUnit \<noteq> ''meters''"
  shows "calculate m (Fin r) inputUnit outputUnit =
     Inr \<lparr>correction = None, pressureAltitude = None, unit = None,
          warning = (p < 920 \<or> 1060 < p)\<rparr>"
  using assms
  by (simp add: calculate_def Let_def hardMin_def hardMax_def warningMin_def warningMax_def)

theorem calculate_unknown_unit_witness:
  "calculate Math_ideal (Fin 900) ''hPa'' ''yards'' =
     Inr \<lparr>correction = None, pressureAltitude = None, unit = None, warning = True\<rparr>"
proof -
  have p: "pressureInHPa (Fin 900) ''hPa'' = Fin 900"
    by (simp add: pressureInHPa_def)
  show ?thesis
    using calculate_unknown_unit [of 900 "''hPa''" 900 "''yards''" Math_ideal, OF _ p]
    by simp
qed

section \<open>Claims about the geodesy engine\<close>

text \<open>
  C9. Both operations are total functions of their arguments, whatever numbers these are
  (\<^verbatim>\<open>NaN\<close> and the infinities included) and whatever \<^verbatim>\<open>Math\<close> computes: the loops are
  defined by recursion on the countdown \<^verbatim>\<open>iterLimit\<close>. The body of the inverse loop is
  entered at most 100 times (at most 100 completed executions, fewer than 100 before a
  coincidence return), the body of the direct loop runs at most 99 times, and a call
  fails with the convergence error exactly when its loop leaves the countdown at zero: no
  value is returned then.
\<close>

theorem vincenty_budget:
  "(case fst (distance_run m lat1 lon1 lat2 lon2) of
      Coincident v \<Rightarrow> i_updates v < 100
    | Done v k \<Rightarrow>
        i_updates v \<le> 100 \<and>
        (calculateDistance m lat1 lon1 lat2 lon2 = Inl ANTIPODAL_POINTS \<longleftrightarrow> k = 0)) \<and>
   (case fst (destination_run m lat1 lon1 distanceMeters bearingDegrees) of
      (v, k) \<Rightarrow>
        d_updates v \<le> 99 \<and>
        (calculateDestination m lat1 lon1 distanceMeters bearingDegrees = Inl CONVERGENCE_FAILED
           \<longleftrightarrow> k = 0))"
proof
  obtain L cosU1 sinU1 cosU2 sinU2 v0 where
    run: "fst (distance_run m lat1 lon1 lat2 lon2) = inverse_loop m L cosU1 sinU1 cosU2 sinU2 v0 100"
    and v0: "i_updates v0 = 0"
    using distance_run_loop by blast
  show "case fst (distance_run m lat1 lon1 lat2 lon2) of
      Coincident v \<Rightarrow> i_updates v < 100
    | Done v k \<Rightarrow>
        i_updates v \<le> 100 \<and>
        (calculateDistance m lat1 lon1 lat2 lon2 = Inl ANTIPODAL_POINTS \<longleftrightarrow> k = 0)"
    using inverse_loop_exit [of 100 m L cosU1 sinU1 cosU2 sinU2 v0, OF _ run [symmetric]] v0
      calculateDistance_cases [of m lat1 lon1 lat2 lon2]
    by (auto split: inverse_exit.splits if_splits)
next
  obtain s A B sigma1 v0 where
    run: "fst (destination_run m lat1 lon1 distanceMeters bearingDegrees) = direct_loop m s A B sigma1 v0 100"
    and v0: "d_updates v0 = 0"
    using destination_run_loop by blast
  obtain v k where vk: "direct_loop m s A B sigma1 v0 100 = (v, k)"
    by (cases "direct_loop m s A B sigma1 v0 100")
  show "case fst (destination_run m lat1 lon1 distanceMeters bearingDegrees) of
      (v, k) \<Rightarrow>
        d_updates v \<le> 99 \<and>
        (calculateDestination m lat1 lon1 distanceMeters bearingDegrees = Inl CONVERGENCE_FAILED
           \<longleftrightarrow> k = 0)"
    using direct_loop_exit [of 100 m s A B sigma1 v0 v k, OF _ vk] v0 run vk
      calculateDestination_cases [of m lat1 lon1 distanceMeters bearingDegrees]
    by (auto split: if_splits)
qed



text \<open>
  C1. For a valid point (and any \<^verbatim>\<open>Math\<close> whose sine, cosine and square root are exact at
  zero, as ECMAScript requires, whose tangent of a finite number is finite and whose square
  root of a number from 1 on is finite and not zero), the inverse operation on the
  point and itself returns distance 0, bearing 0 and the coincidence flag, from the first
  execution of the loop body.
\<close>

theorem coincident_points:
  assumes "- 90 \<le> latitude" "latitude \<le> 90" "- 180 \<le> longitude" "longitude \<le> 180"
    and "Math_sin m (Fin 0) = Fin 0"
    and "Math_cos m (Fin 0) = Fin 1"
    and "Math_sqrt m (Fin 0) = Fin 0"
    and "\<forall>x. \<exists>t. Math_tan m (Fin x) = Fin t"
    and "\<forall>x\<ge>1. \<exists>r. r \<noteq> 0 \<and> Math_sqrt m (Fin x) = Fin r"
  shows "calculateDistance m (Fin latitude) (Fin longitude) (Fin latitude) (Fin longitude) =
           Inr \<lparr>distance = 0, initialBearing = 0, isCoincident = True\<rparr> \<and>
         (\<exists>v. fst (distance_run m (Fin latitude) (Fin longitude) (Fin latitude) (Fin longitude)) =
                 Coincident v \<and> i_updates v = 0)"
proof -
  obtain x where rad: "toRad (Fin latitude) = Fin x"
    using toRad_Fin by blast
  obtain t where t: "Math_tan m (Fin x) = Fin t"
    using assms(8) by blast
  define T where "T = (1 - 1 / 298.257223563) * t"
  have "1 \<le> 1 + T * T" by simp
  then obtain r where r: "r \<noteq> 0" "Math_sqrt m (Fin (1 + T * T)) = Fin r"
    using assms(9) by blast
  have tanU: "(Fin 1 - WGS84_f) * Math_tan m (toRad (Fin latitude)) = Fin T"
    by (simp add: rad t WGS84_f_def T_def)
  have L: "toRad (Fin longitude) - toRad (Fin longitude) = Fin 0"
    by (simp add: toRad_Fin)
  have upd: "inverse_update m (Fin 0) (Fin c) (Fin s) (Fin c) (Fin s) v = None"
    if "i_lambda v = Fin 0" for v c s
    using that assms(5-7) by (simp add: inverse_update_def Let_def strict_eq_def)
  have run: "fst (distance_run m (Fin latitude) (Fin longitude) (Fin latitude) (Fin longitude)) =
      Coincident \<lparr>i_lambda = Fin 0, i_lambdaP = NaN, i_sinLambda = NaN, i_cosLambda = NaN,
             i_sinSigma = NaN, i_cosSigma = NaN, i_sigma = NaN, i_sinAlpha = NaN,
             i_cosSqAlpha = NaN, i_cos2SigmaM = NaN, i_C = NaN, i_updates = 0\<rparr>"
    using r(1)
    by (simp add: distance_run_def Let_def tanU r(2) L inverse_loop_coincident [OF upd])
  from run calculateDistance_cases [of m "Fin latitude" "Fin longitude" "Fin latitude" "Fin longitude"]
  show ?thesis by simp
qed

theorem coincident_points_witness:
  "calculateDistance Math_ideal (Fin 10) (Fin 20) (Fin 10) (Fin 20) =
     Inr \<lparr>distance = 0, initialBearing = 0, isCoincident = True\<rparr>"
proof -
  have tan: "\<forall>x. \<exists>t. Math_tan Math_ideal (Fin x) = Fin t"
    by (simp add: Math_ideal_def)
  have sqrt: "\<forall>x\<ge>1. \<exists>r. r \<noteq> 0 \<and> Math_sqrt Math_ideal (Fin x) = Fin r"
    by (simp add: Math_ideal_def)
  show ?thesis
    using coincident_points [of 10 20 Math_ideal, OF _ _ _ _ _ _ _ tan sqrt]
    by (simp add: Math_ideal_def)
qed

text \<open>
  Claim C4. For the points (0, 0) and (0, 180) the inverse operation fails with the convergence
  error: every one of the 100 passes moves \<open>\<lambda>\<close> by more than \<^verbatim>\<open>1e-12\<close>, from one side of \<open>\<pi>\<close> to the
  other, so the loop ends with its countdown at 0; it returns neither the coincident result nor
  a distance. Stated for the reference \<^verbatim>\<open>Math\<close>, with \<^verbatim>\<open>Math.PI\<close> the double below \<open>\<pi>\<close>.
\<close>

theorem antipodal_points:
  "calculateDistance Math_ideal 0 0 0 180 = Inl ANTIPODAL_POINTS \<and>
   (\<exists>w. fst (distance_run Math_ideal 0 0 0 180) = Done w 0)"
proof -
  define P :: real where "P = 884279719003555 / 2 ^ 48"
  have Plt: "P < pi" unfolding P_def by (rule double_pi_less)
  have Pval: "3.1415 < P" by (simp add: P_def)
  note pi_less_3148
  have step: "\<exists>w. inverse_update Math_ideal (Fin P) (Fin 1) (Fin 0) (Fin 1) (Fin 0) v = Some w \<and>
      antipodal_inv w \<and> Math_abs (i_lambda w - i_lambdaP w) > CONVERGENCE_THRESHOLD"
    if "antipodal_inv v" for v
  proof -
    from that obtain l where l: "i_lambda v = Fin l"
      and r: "99 / 100 * pi \<le> l \<and> l < pi \<or> 1001 / 1000 * pi \<le> l \<and> l \<le> 10034 / 10000 * pi"
      by (auto simp: antipodal_inv_def)
    have small: "(1::real) / 10 ^ 12 < 1 / 1000" by simp
    from r show ?thesis
    proof
      assume b: "99 / 100 * pi \<le> l \<and> l < pi"
      then have "pi / 2 < l" "l < pi" using pi_gt_zero by linarith+
      from equator_update_below [OF l this, of P] obtain w where
        w: "inverse_update Math_ideal (Fin P) (Fin 1) (Fin 0) (Fin 1) (Fin 0) v = Some w"
          "i_lambda w = Fin (P + l / 298.257223563)" "i_lambdaP w = Fin l"
        by blast
      define l' where "l' = P + l / 298.257223563"
      have lo: "1001 / 1000 * pi \<le> l'"
        unfolding l'_def using b Pval pi_less_3148 by (simp add: field_simps)
      have hi: "l' \<le> 10034 / 10000 * pi"
        unfolding l'_def using b Plt pi_gt_zero by (simp add: field_simps)
      have "1 / 1000 < l' - l"
        using lo b pi_ge_two by linarith
      with small have "1 / 10 ^ 12 < \<bar>l' - l\<bar>"
        by linarith
      then have far: "Fin (1 / 10 ^ 12) < Fin \<bar>l' - l\<bar>"
        by (simp only: less_jsnum.simps)
      have w2: "i_lambda w = Fin l'"
        using w(2) by (simp only: l'_def)
      have "antipodal_inv w"
        unfolding antipodal_inv_def using w2 lo hi by blast
      moreover have "Math_abs (i_lambda w - i_lambdaP w) > CONVERGENCE_THRESHOLD"
        using far by (simp only: w2 w(3) minus_Fin Math_abs.simps CONVERGENCE_THRESHOLD_def)
      ultimately show ?thesis
        using w(1) by blast
    next
      assume a: "1001 / 1000 * pi \<le> l \<and> l \<le> 10034 / 10000 * pi"
      then have "pi < l" "l < 3 * pi / 2" using pi_gt_zero by linarith+
      from equator_update_above [OF l this, of P] obtain w where
        w: "inverse_update Math_ideal (Fin P) (Fin 1) (Fin 0) (Fin 1) (Fin 0) v = Some w"
          "i_lambda w = Fin (P - (2 * pi - l) / 298.257223563)" "i_lambdaP w = Fin l"
        by blast
      define l' where "l' = P - (2 * pi - l) / 298.257223563"
      have lo: "99 / 100 * pi \<le> l'"
        unfolding l'_def using a Pval pi_less_3148 by (simp add: field_simps)
      have hi: "l' < pi"
        unfolding l'_def using a Plt pi_gt_zero by (simp add: field_simps)
      have "1 / 1000 < l - l'"
        using hi a pi_ge_two by linarith
      with small have "1 / 10 ^ 12 < \<bar>l' - l\<bar>"
        by linarith
      then have far: "Fin (1 / 10 ^ 12) < Fin \<bar>l' - l\<bar>"
        by (simp only: less_jsnum.simps)
      have w2: "i_lambda w = Fin l'"
        using w(2) by (simp only: l'_def)
      have "antipodal_inv w"
        unfolding antipodal_inv_def using w2 lo hi by blast
      moreover have "Math_abs (i_lambda w - i_lambdaP w) > CONVERGENCE_THRESHOLD"
        using far by (simp only: w2 w(3) minus_Fin Math_abs.simps CONVERGENCE_THRESHOLD_def)
      ultimately show ?thesis
        using w(1) by blast
    qed
  qed
  define v0 where "v0 = \<lparr>i_lambda = Fin P, i_lambdaP = NaN, i_sinLambda = NaN, i_cosLambda = NaN,
             i_sinSigma = NaN, i_cosSigma = NaN, i_sigma = NaN, i_sinAlpha = NaN,
             i_cosSqAlpha = NaN, i_cos2SigmaM = NaN, i_C = NaN, i_updates = 0\<rparr>"
  have run: "fst (distance_run Math_ideal 0 0 0 180) =
      inverse_loop Math_ideal (Fin P) (Fin 1) (Fin 0) (Fin 1) (Fin 0) v0 100"
    by (simp add: distance_run_def Let_def toRad_Fin Math_ideal_def WGS84_f_def v0_def P_def)
  have "antipodal_inv v0"
    using Plt Pval pi_less_3148 by (simp add: antipodal_inv_def v0_def)
  with inverse_loop_exhaust [of antipodal_inv Math_ideal "Fin P" "Fin 1" "Fin 0" "Fin 1" "Fin 0" v0 100]
    step
  obtain w where "inverse_loop Math_ideal (Fin P) (Fin 1) (Fin 0) (Fin 1) (Fin 0) v0 100 = Done w 0"
    by auto
  with run calculateDistance_cases [of Math_ideal 0 0 0 180] show ?thesis by simp
qed



end
